theory Spec2Isabelle
  imports
    Complex_Main
    "HOL-Library.Char_ord"
    "HOL-Library.List_Lexorder"
    "HOL-Library.Sublist"
begin

section \<open>Railway journeys dashboard: the filter and aggregation layer of app.py\<close>

text \<open>
  The script \<^verbatim>\<open>app.py\<close> loads a table of journeys, reads five sidebar widgets,
  narrows the table step by step and computes five KPIs and seven projections from the
  narrowed table. The table is a list of rows in file order. A cell that pandas reads
  as missing (NaN, NaT) is \<open>None\<close>. Timestamps are integers (any monotone encoding of
  the calendar), labels are strings ordered by code point, as Python orders them. A
  price is a rational number; how the price column adds its cells is a parameter of
  the model (see below).
\<close>

subsection \<open>Data model\<close>

record journey =
  date_of_journey :: "int option"
  hour_am_pm :: "string option"
  day_of_week :: "string option"
  month :: "string option"
  departure_station :: "string option"
  arrival_destination :: "string option"
  route :: "string option"
  price :: "rat option"
  is_delayed :: bool
  is_cancelled :: bool
  reason_for_delay :: "string option"
  refund_request :: "string option"
  ticket_type :: "string option"
  ticket_class :: "string option"

text \<open>
  The values of the sidebar widgets (lines 35 to 51). \<^verbatim>\<open>st.sidebar.date_input\<close> called
  with a two-element default returns a tuple of zero, one or two dates; each
  \<^verbatim>\<open>multiselect\<close> returns the list of chosen options.
\<close>

record sidebar =
  date_range :: "int list"
  selected_hours :: "string list"
  selected_days :: "string list"
  selected_departures :: "string list"
  selected_arrivals :: "string list"

datatype error = IndexError

subsection \<open>Applying the filters (lines 56 to 74)\<close>

text \<open>\<^verbatim>\<open>Series.isin(values)\<close> with a list of strings: a missing cell is in no such list.\<close>

fun isin :: "string option \<Rightarrow> string list \<Rightarrow> bool" where
  "isin None values = False"
| "isin (Some v) values = (v \<in> set values)"

text \<open>The comparisons \<^verbatim>\<open>col >= d\<close> and \<^verbatim>\<open>col <= d\<close>: false on a missing timestamp.\<close>

fun ge_date :: "int option \<Rightarrow> int \<Rightarrow> bool" where
  "ge_date None d = False"
| "ge_date (Some x) d = (d \<le> x)"

fun le_date :: "int option \<Rightarrow> int \<Rightarrow> bool" where
  "le_date None d = False"
| "le_date (Some x) d = (x \<le> d)"

text \<open>
  Lines 58 to 62. An empty tuple is falsy and skips the step; with one date the
  subscript \<^verbatim>\<open>date_range[1]\<close> raises; otherwise the first two dates bound the mask.
\<close>

fun date_step :: "int list \<Rightarrow> journey list \<Rightarrow> error + journey list" where
  "date_step [] df = Inr df"
| "date_step [d0] df = Inl IndexError"
| "date_step (d0 # d1 # ds) df =
     Inr (filter (\<lambda>r. ge_date (date_of_journey r) d0 \<and> le_date (date_of_journey r) d1) df)"

text \<open>Lines 64 to 74, one step per categorical widget: \<^verbatim>\<open>if "All" not in selected: ...\<close>\<close>

definition isin_step ::
  "(journey \<Rightarrow> string option) \<Rightarrow> string list \<Rightarrow> journey list \<Rightarrow> journey list" where
  "isin_step col selected df =
     (if ''All'' \<notin> set selected then filter (\<lambda>r. isin (col r) selected) df else df)"

definition filtered_df :: "journey list \<Rightarrow> sidebar \<Rightarrow> error + journey list" where
  "filtered_df df sb =
     (case date_step (date_range sb) df of
        Inl e \<Rightarrow> Inl e
      | Inr f0 \<Rightarrow>
          Inr (isin_step arrival_destination (selected_arrivals sb)
                (isin_step departure_station (selected_departures sb)
                  (isin_step day_of_week (selected_days sb)
                    (isin_step hour_am_pm (selected_hours sb) f0)))))"

subsection \<open>The arithmetic of the price column\<close>

text \<open>
  \<^verbatim>\<open>read_csv\<close> gives the column \<^verbatim>\<open>Price\<close> the dtype float64 or int64, as the file
  decides. Every finite float64 and every int64 is a rational number, so a cell is a
  rational. What the sum reduction of the column returns for a list of cells (rounded
  in float64, wrapped in int64) is not fixed by the script: it is a parameter, a
  function from the cells to the number returned, taken to be finite. The sum of no
  cells is 0 in every dtype.
\<close>

type_synonym reduction = "rat list \<Rightarrow> rat"

definition reduce :: "reduction \<Rightarrow> rat list \<Rightarrow> rat" where
  "reduce f xs = (if xs = [] then 0 else f xs)"



text \<open>\<^verbatim>\<open>fillna(v)\<close> on one cell.\<close>

fun fillna :: "rat \<Rightarrow> rat option \<Rightarrow> rat" where
  "fillna v None = v"
| "fillna v (Some x) = x"

subsection \<open>KPIs (lines 79 to 92)\<close>











subsection \<open>The pandas operations behind the projections\<close>

fun dropna :: "'a option list \<Rightarrow> 'a list" where
  "dropna [] = []"
| "dropna (None # col) = dropna col"
| "dropna (Some x # col) = x # dropna col"

text \<open>The distinct values of a column, in order of first appearance.\<close>

definition unique :: "'a list \<Rightarrow> 'a list" where
  "unique xs = rev (remdups (rev xs))"

text \<open>
  \<^verbatim>\<open>Series.value_counts()\<close>: missing cells are dropped, each distinct value is paired
  with its number of occurrences, and the pairs are sorted by descending count. The
  order pandas gives to values with equal counts is not part of its contract; here
  they stay in order of first appearance. No property below depends on that order.
\<close>

definition value_counts :: "'a option list \<Rightarrow> ('a \<times> nat) list" where
  "value_counts col =
     (let xs = dropna col
      in sort_key (\<lambda>kn. - int (snd kn)) (map (\<lambda>k. (k, count_list xs k)) (unique xs)))"

text \<open>
  \<^verbatim>\<open>groupby(col).size().reset_index(name=...)\<close>: rows with a missing key are dropped,
  the groups come sorted by key in ascending order, each with its number of rows.
\<close>

definition groupby_size :: "string option list \<Rightarrow> (string \<times> nat) list" where
  "groupby_size col =
     (let xs = dropna col in map (\<lambda>k. (k, count_list xs k)) (sort (remdups xs)))"

text \<open>
  \<^verbatim>\<open>Series.reindex(labels)\<close> without a fill value: a label that is not in the index of
  the series gets a missing cell.
\<close>

definition reindex :: "('k \<times> 'v) list \<Rightarrow> 'k list \<Rightarrow> ('k \<times> 'v option) list" where
  "reindex s labels = map (\<lambda>l. (l, map_of s l)) labels"

subsection \<open>Projections (lines 108 to 207)\<close>

definition popular_routes :: "journey list \<Rightarrow> (string \<times> nat) list" where
  "popular_routes df = take 10 (value_counts (map route df))"

definition hour_counts :: "journey list \<Rightarrow> (string \<times> nat) list" where
  "hour_counts df = groupby_size (map hour_am_pm df)"

definition week :: "string list" where
  "week = [''Sunday'', ''Monday'', ''Tuesday'', ''Wednesday'', ''Thursday'', ''Friday'',
           ''Saturday'']"

definition day_counts :: "journey list \<Rightarrow> (string \<times> nat option) list" where
  "day_counts df = reindex (value_counts (map day_of_week df)) week"

definition monthly_counts :: "journey list \<Rightarrow> (string \<times> nat) list" where
  "monthly_counts df = groupby_size (map month df)"

definition delayed :: "journey list \<Rightarrow> journey list" where
  "delayed df = filter (\<lambda>r. is_delayed r = True) df"

definition delayed_reasons :: "journey list \<Rightarrow> (string \<times> nat) list" where
  "delayed_reasons df = value_counts (map reason_for_delay (delayed df))"

definition cancelled :: "journey list \<Rightarrow> journey list" where
  "cancelled df = filter (\<lambda>r. is_cancelled r = True) df"

definition cancel_reasons :: "journey list \<Rightarrow> (string \<times> nat) list" where
  "cancel_reasons df = value_counts (map reason_for_delay (cancelled df))"

text \<open>
  Lines 202 to 207. \<^verbatim>\<open>pivot_table\<close> groups the rows that have both keys, reduces the
  prices present in each group with the group sum of the column's dtype, and lays the
  sums out with the sorted ticket types as row labels and the sorted ticket classes as
  column labels. The group sum is a parameter like the column sum above: the number
  that the table holds for a group with the given prices. A (type, class) pair without
  a group is a missing cell, which \<^verbatim>\<open>.fillna(0)\<close> replaces by 0.
\<close>

record pivot =
  pivot_index :: "string list"
  pivot_columns :: "string list"
  pivot_values :: "rat list list"

definition both_keys :: "journey \<Rightarrow> (string \<times> string) option" where
  "both_keys r =
     (case ticket_type r of
        None \<Rightarrow> None
      | Some t \<Rightarrow> (case ticket_class r of None \<Rightarrow> None | Some c \<Rightarrow> Some (t, c)))"

definition group_sum ::
  "reduction \<Rightarrow> journey list \<Rightarrow> string \<Rightarrow> string \<Rightarrow> rat option" where
  "group_sum gsum df t c =
     (let g = filter (\<lambda>r. both_keys r = Some (t, c)) df
      in if g = [] then None else Some (reduce gsum (dropna (map price g))))"

definition revenue_pivot :: "reduction \<Rightarrow> journey list \<Rightarrow> pivot" where
  "revenue_pivot gsum df =
     (let keys = dropna (map both_keys df);
          rows = sort (remdups (map fst keys));
          cols = sort (remdups (map snd keys))
      in \<lparr>pivot_index = rows, pivot_columns = cols,
          pivot_values = map (\<lambda>t. map (\<lambda>c. fillna 0 (group_sum gsum df t c)) cols) rows\<rparr>)"

subsection \<open>The predicates of the specification\<close>

text \<open>
  The date predicate of the specification: the journey date lies in the closed range.
  A row without a date lies in no range.
\<close>

definition in_range :: "int \<Rightarrow> int \<Rightarrow> journey \<Rightarrow> bool" where
  "in_range s e r = (case date_of_journey r of None \<Rightarrow> False | Some d \<Rightarrow> s \<le> d \<and> d \<le> e)"

text \<open>Membership of a row's value in a selection; a missing value is no member.\<close>

definition value_in :: "string list \<Rightarrow> string option \<Rightarrow> bool" where
  "value_in selected v = (case v of None \<Rightarrow> False | Some x \<Rightarrow> x \<in> set selected)"

text \<open>
  The predicate of one categorical dimension in the words of the specification: the
  dimension is unrestricted when the selection, as a set, is literally the sentinel set
  \<open>{''All''}\<close>; otherwise the row's value must be a member of the selection.
\<close>

definition spec_member_ok :: "string list \<Rightarrow> string option \<Rightarrow> bool" where
  "spec_member_ok selected v = (set selected = {''All''} \<or> value_in selected v)"

definition spec_satisfies :: "int \<Rightarrow> int \<Rightarrow> sidebar \<Rightarrow> journey \<Rightarrow> bool" where
  "spec_satisfies s e sb r =
     (in_range s e r \<and>
      spec_member_ok (selected_hours sb) (hour_am_pm r) \<and>
      spec_member_ok (selected_days sb) (day_of_week r) \<and>
      spec_member_ok (selected_departures sb) (departure_station r) \<and>
      spec_member_ok (selected_arrivals sb) (arrival_destination r))"

text \<open>
  The same predicates with the one change that the code forces: a dimension is
  unrestricted when \<open>''All''\<close> is among the selected options, alone or not.
\<close>

definition contains_member_ok :: "string list \<Rightarrow> string option \<Rightarrow> bool" where
  "contains_member_ok selected v = (''All'' \<in> set selected \<or> value_in selected v)"

definition contains_satisfies :: "int \<Rightarrow> int \<Rightarrow> sidebar \<Rightarrow> journey \<Rightarrow> bool" where
  "contains_satisfies s e sb r =
     (in_range s e r \<and>
      contains_member_ok (selected_hours sb) (hour_am_pm r) \<and>
      contains_member_ok (selected_days sb) (day_of_week r) \<and>
      contains_member_ok (selected_departures sb) (departure_station r) \<and>
      contains_member_ok (selected_arrivals sb) (arrival_destination r))"

text \<open>
  A selection that does not mix the sentinel with specific values: it is the sentinel
  set or it does not hold the sentinel.
\<close>

definition unmixed :: "string list \<Rightarrow> bool" where
  "unmixed selected = (set selected = {''All''} \<or> ''All'' \<notin> set selected)"



subsection \<open>Sample rows\<close>

definition blank :: journey where
  "blank = \<lparr>date_of_journey = None, hour_am_pm = None, day_of_week = None, month = None,
            departure_station = None, arrival_destination = None, route = None,
            price = None, is_delayed = False, is_cancelled = False,
            reason_for_delay = None, refund_request = None, ticket_type = None,
            ticket_class = None\<rparr>"

definition no_filter :: sidebar where
  "no_filter = \<lparr>date_range = [], selected_hours = [''All''], selected_days = [''All''],
               selected_departures = [''All''], selected_arrivals = [''All'']\<rparr>"

text \<open>Thirteen journeys on twelve routes; only the route \<open>''Leeds''\<close> is travelled twice.\<close>

definition thirteen_journeys :: "journey list" where
  "thirteen_journeys =
     map (\<lambda>x. blank\<lparr>route := Some x\<rparr>)
       [''Ayr'', ''Bath'', ''Crewe'', ''Derby'', ''Ely'', ''Frome'', ''Goole'', ''Hull'',
        ''Ince'', ''Jarrow'', ''Kendal'', ''Leeds'', ''Leeds'']"

section \<open>Properties\<close>

subsection \<open>The filter\<close>

lemma isin_value_in: "isin v sel = value_in sel v"
  by (cases v) (simp_all add: value_in_def)

lemma isin_step_filter:
  "isin_step col sel df = filter (\<lambda>r. contains_member_ok sel (col r)) df"
  by (simp add: isin_step_def contains_member_ok_def isin_value_in)

lemma date_step_pair: "date_step [s, e] df = Inr (filter (in_range s e) df)"
proof -
  have "(\<lambda>r. ge_date (date_of_journey r) s \<and> le_date (date_of_journey r) e) = in_range s e"
  proof
    fix r
    show "(ge_date (date_of_journey r) s \<and> le_date (date_of_journey r) e) = in_range s e r"
      by (cases "date_of_journey r") (simp_all add: in_range_def)
  qed
  then show ?thesis by simp
qed

lemma filtered_df_contains:
  assumes "date_range sb = [s, e]"
  shows "filtered_df df sb = Inr (filter (contains_satisfies s e sb) df)"
  unfolding filtered_df_def assms date_step_pair isin_step_filter
  by (simp add: contains_satisfies_def conj_ac cong: filter_cong)

lemma unmixed_agree: "unmixed sel \<Longrightarrow> spec_member_ok sel v = contains_member_ok sel v"
  by (auto simp: unmixed_def spec_member_ok_def contains_member_ok_def)

text \<open>
  C1 as stated fails. The hours selected are \<open>''All''\<close> and \<open>''9 AM''\<close>, which is not
  the sentinel set, so the hour predicate of the specification is active; the row of
  10 AM does not satisfy it and is returned all the same.
\<close>

theorem filter_literal_counterexample:
  "filtered_df [blank\<lparr>date_of_journey := Some 3, hour_am_pm := Some ''10 AM''\<rparr>]
     (no_filter\<lparr>date_range := [1, 5], selected_hours := [''All'', ''9 AM'']\<rparr>)
     = Inr [blank\<lparr>date_of_journey := Some 3, hour_am_pm := Some ''10 AM''\<rparr>] \<and>
   \<not> spec_satisfies 1 5 (no_filter\<lparr>date_range := [1, 5], selected_hours := [''All'', ''9 AM'']\<rparr>)
       (blank\<lparr>date_of_journey := Some 3, hour_am_pm := Some ''10 AM''\<rparr>)"
  by (simp add: filtered_df_def isin_step_def no_filter_def spec_satisfies_def
      spec_member_ok_def value_in_def)

text \<open>
  C1 (as amended). With a start and an end date chosen, the filter returns exactly the
  rows that lie in the closed date range and, for every dimension whose selection does
  not hold \<open>''All''\<close>, have their value among the selected ones: each returned row
  satisfies all of these predicates, each row that satisfies them is returned, and the
  rows keep their relative order. When no selection mixes \<open>''All''\<close> with specific
  values, these are the predicates of the specification itself.
\<close>

theorem filtered_df_exact:
  assumes "date_range sb = [s, e]"
  shows "filtered_df df sb = Inr (filter (contains_satisfies s e sb) df)
    \<and> subseq (filter (contains_satisfies s e sb) df) df
    \<and> (\<forall>r. r \<in> set (filter (contains_satisfies s e sb) df)
          \<longleftrightarrow> r \<in> set df \<and> contains_satisfies s e sb r)
    \<and> (unmixed (selected_hours sb) \<and> unmixed (selected_days sb) \<and>
        unmixed (selected_departures sb) \<and> unmixed (selected_arrivals sb)
        \<longrightarrow> filtered_df df sb = Inr (filter (spec_satisfies s e sb) df))"
proof -
  have code: "filtered_df df sb = Inr (filter (contains_satisfies s e sb) df)"
    using assms by (rule filtered_df_contains)
  have "spec_satisfies s e sb = contains_satisfies s e sb"
    if "unmixed (selected_hours sb)" "unmixed (selected_days sb)"
      "unmixed (selected_departures sb)" "unmixed (selected_arrivals sb)"
    using that by (simp add: fun_eq_iff spec_satisfies_def contains_satisfies_def unmixed_agree)
  with code show ?thesis by simp
qed

theorem filtered_df_exact_witness:
  "date_range (no_filter\<lparr>date_range := [1, 5], selected_hours := [''9 AM'']\<rparr>) = [1, 5] \<and>
   unmixed [''9 AM''] \<and> unmixed [''All''] \<and>
   filtered_df
     [blank\<lparr>date_of_journey := Some 7, hour_am_pm := Some ''9 AM''\<rparr>,
      blank\<lparr>date_of_journey := Some 3, hour_am_pm := Some ''9 AM''\<rparr>,
      blank\<lparr>date_of_journey := Some 2, hour_am_pm := Some ''10 AM''\<rparr>,
      blank\<lparr>date_of_journey := Some 5, hour_am_pm := Some ''9 AM'', is_delayed := True\<rparr>]
     (no_filter\<lparr>date_range := [1, 5], selected_hours := [''9 AM'']\<rparr>)
   = Inr [blank\<lparr>date_of_journey := Some 3, hour_am_pm := Some ''9 AM''\<rparr>,
          blank\<lparr>date_of_journey := Some 5, hour_am_pm := Some ''9 AM'', is_delayed := True\<rparr>]"
  using filtered_df_exact
    [of "no_filter\<lparr>date_range := [1, 5], selected_hours := [''9 AM'']\<rparr>" 1 5
      "[blank\<lparr>date_of_journey := Some 7, hour_am_pm := Some ''9 AM''\<rparr>,
        blank\<lparr>date_of_journey := Some 3, hour_am_pm := Some ''9 AM''\<rparr>,
        blank\<lparr>date_of_journey := Some 2, hour_am_pm := Some ''10 AM''\<rparr>,
        blank\<lparr>date_of_journey := Some 5, hour_am_pm := Some ''9 AM'', is_delayed := True\<rparr>]"]
  by (simp add: no_filter_def blank_def contains_satisfies_def in_range_def
      contains_member_ok_def value_in_def unmixed_def)

text \<open>
  C3 as stated fails: the selection \<open>[''All'', ''9 AM'']\<close> is not the sentinel set, the
  row's hour is not in it, and the row is kept all the same.
\<close>

theorem sentinel_mixed_counterexample:
  "set [''All'', ''9 AM''] \<noteq> {''All''} \<and>
   \<not> isin (hour_am_pm (blank\<lparr>hour_am_pm := Some ''10 AM''\<rparr>)) [''All'', ''9 AM''] \<and>
   filtered_df [blank\<lparr>hour_am_pm := Some ''10 AM''\<rparr>]
     (no_filter\<lparr>selected_hours := [''All'', ''9 AM'']\<rparr>)
   = Inr [blank\<lparr>hour_am_pm := Some ''10 AM''\<rparr>]"
  by (simp add: filtered_df_def isin_step_def no_filter_def)

text \<open>
  C3 (as amended). Each categorical step (hours, days, departure stations, arrival
  stations) leaves every table unchanged if and only if \<open>''All''\<close> is among the
  selected options, alone or together with specific values; a selection without
  \<open>''All''\<close> keeps exactly the rows whose value is one of the selected options.
\<close>

theorem sentinel_is_containment:
  "((\<forall>df. isin_step hour_am_pm sel df = df) \<longleftrightarrow> ''All'' \<in> set sel) \<and>
   ((\<forall>df. isin_step day_of_week sel df = df) \<longleftrightarrow> ''All'' \<in> set sel) \<and>
   ((\<forall>df. isin_step departure_station sel df = df) \<longleftrightarrow> ''All'' \<in> set sel) \<and>
   ((\<forall>df. isin_step arrival_destination sel df = df) \<longleftrightarrow> ''All'' \<in> set sel) \<and>
   (''All'' \<notin> set sel \<longrightarrow>
      isin_step hour_am_pm sel df = filter (\<lambda>r. value_in sel (hour_am_pm r)) df \<and>
      isin_step day_of_week sel df = filter (\<lambda>r. value_in sel (day_of_week r)) df \<and>
      isin_step departure_station sel df
        = filter (\<lambda>r. value_in sel (departure_station r)) df \<and>
      isin_step arrival_destination sel df
        = filter (\<lambda>r. value_in sel (arrival_destination r)) df)"
proof -
  have key: "(\<forall>df. isin_step col sel df = df) \<longleftrightarrow> ''All'' \<in> set sel"
    if "col blank = None" for col
  proof
    assume unchanged: "\<forall>df. isin_step col sel df = df"
    show "''All'' \<in> set sel"
    proof (rule ccontr)
      assume "''All'' \<notin> set sel"
      then have "isin_step col sel [blank] = []"
        using that by (simp add: isin_step_def)
      with unchanged show False by simp
    qed
  next
    assume "''All'' \<in> set sel"
    then show "\<forall>df. isin_step col sel df = df"
      by (simp add: isin_step_def)
  qed
  have restrict: "isin_step col sel df = filter (\<lambda>r. value_in sel (col r)) df"
    if "''All'' \<notin> set sel" for col
    using that by (simp add: isin_step_def isin_value_in)
  show ?thesis
    by (simp add: key blank_def restrict)
qed

theorem sentinel_is_containment_witness:
  "isin_step hour_am_pm [''All'', ''9 AM''] [blank\<lparr>hour_am_pm := Some ''10 AM''\<rparr>]
     = [blank\<lparr>hour_am_pm := Some ''10 AM''\<rparr>] \<and>
   ''All'' \<notin> set [''9 AM'', ''3 PM''] \<and>
   isin_step hour_am_pm [''9 AM'', ''3 PM'']
     [blank\<lparr>hour_am_pm := Some ''10 AM''\<rparr>, blank\<lparr>hour_am_pm := Some ''3 PM''\<rparr>, blank]
     = [blank\<lparr>hour_am_pm := Some ''3 PM''\<rparr>]"
  using sentinel_is_containment [of "[''All'', ''9 AM'']"]
    sentinel_is_containment [of "[''9 AM'', ''3 PM'']"
      "[blank\<lparr>hour_am_pm := Some ''10 AM''\<rparr>, blank\<lparr>hour_am_pm := Some ''3 PM''\<rparr>, blank]"]
  by (simp add: value_in_def blank_def)

text \<open>
  C4 (as amended). The filter does not validate the date range: when the end date lies
  before the start date it raises nothing and returns the empty table.
\<close>

theorem reversed_range_empty:
  assumes "e < s" and "date_range sb = [s, e]"
  shows "filtered_df df sb = Inr []"
proof -
  have "\<not> in_range s e r" for r
    using assms(1) by (simp add: in_range_def split: option.splits)
  then have "filter (contains_satisfies s e sb) df = []"
    by (simp add: contains_satisfies_def)
  with filtered_df_contains [OF assms(2), of df] show ?thesis by simp
qed

theorem reversed_range_empty_witness:
  "(1::int) < 9 \<and> date_range (no_filter\<lparr>date_range := [9, 1]\<rparr>) = [9, 1] \<and>
   filtered_df [blank\<lparr>date_of_journey := Some 1\<rparr>, blank\<lparr>date_of_journey := Some 9\<rparr>]
     (no_filter\<lparr>date_range := [9, 1]\<rparr>) = Inr []"
  using reversed_range_empty [of 1 9 "no_filter\<lparr>date_range := [9, 1]\<rparr>"
     "[blank\<lparr>date_of_journey := Some 1\<rparr>, blank\<lparr>date_of_journey := Some 9\<rparr>]"]
  by (simp add: no_filter_def)

text \<open>
  C4 as stated fails: with the range from day 5 back to day 3 the filter returns a
  result, the empty table, instead of an error.
\<close>

theorem reversed_range_counterexample:
  "filtered_df [blank\<lparr>date_of_journey := Some 4\<rparr>] (no_filter\<lparr>date_range := [5, 3]\<rparr>)
     = Inr []"
  by (simp add: filtered_df_def isin_step_def no_filter_def)

text \<open>A range with a single date stops at the subscript \<^verbatim>\<open>date_range[1]\<close>.\<close>

lemma single_bound_raises: "date_range sb = [d] \<Longrightarrow> filtered_df df sb = Inl IndexError"
  by (simp add: filtered_df_def)

subsection \<open>The KPIs\<close>











subsection \<open>Counting operations\<close>

lemma set_dropna: "set (dropna col) = {x. Some x \<in> set col}"
  by (induction col rule: dropna.induct) auto

lemma count_dropna_map:
  "count_list (dropna (map f df)) k = length (filter (\<lambda>r. f r = Some k) df)"
proof (induction df)
  case Nil
  show ?case by simp
next
  case (Cons r df)
  then show ?case by (cases "f r") simp_all
qed

lemma set_unique: "set (unique xs) = set xs"
  by (simp add: unique_def)

lemma distinct_unique: "distinct (unique xs)"
  by (simp add: unique_def)

lemma length_unique: "length (unique xs) = card (set xs)"
  using distinct_card [OF distinct_unique, of xs] by (simp add: set_unique)

lemma distinct_map_insort_key:
  "distinct (map g (insort_key f x xs)) \<longleftrightarrow> g x \<notin> g ` set xs \<and> distinct (map g xs)"
  by (induction xs) (auto simp: set_insort_key)

lemma distinct_map_sort_key: "distinct (map g (sort_key f xs)) \<longleftrightarrow> distinct (map g xs)"
  by (induction xs) (simp_all add: sort_key_simps distinct_map_insort_key)

lemma value_counts_set:
  "set (value_counts col) = (\<lambda>k. (k, count_list (dropna col) k)) ` {x. Some x \<in> set col}"
  by (simp add: value_counts_def Let_def set_unique set_dropna)

lemma value_counts_distinct: "distinct (map fst (value_counts col))"
  by (simp add: value_counts_def Let_def distinct_map_sort_key comp_def distinct_unique)

lemma value_counts_sorted: "sorted_wrt (\<lambda>a b. snd b \<le> snd a) (value_counts col)"
proof -
  have "sorted (map (\<lambda>kn. - int (snd kn)) (value_counts col))"
    unfolding value_counts_def Let_def by (rule sorted_sort_key)
  then show ?thesis by (simp add: sorted_map)
qed

lemma value_counts_length: "length (value_counts col) = card {x. Some x \<in> set col}"
  by (simp add: value_counts_def Let_def length_unique set_dropna)

lemma value_counts_lookup:
  "map_of (value_counts col) k =
     (if Some k \<in> set col then Some (count_list (dropna col) k) else None)"
proof (cases "Some k \<in> set col")
  case True
  then have "(k, count_list (dropna col) k) \<in> set (value_counts col)"
    by (simp add: value_counts_set)
  with value_counts_distinct [of col] True show ?thesis
    by simp
next
  case False
  then have "k \<notin> fst ` set (value_counts col)"
    by (auto simp: value_counts_set)
  with False show ?thesis by (simp add: map_of_eq_None_iff)
qed

lemma value_counts_positive: "(k, n) \<in> set (value_counts col) \<Longrightarrow> 0 < n"
proof -
  assume "(k, n) \<in> set (value_counts col)"
  then have "k \<in> set (dropna col)" and n: "n = count_list (dropna col) k"
    by (auto simp: value_counts_set set_dropna)
  then have "count_list (dropna col) k \<noteq> 0"
    by (simp add: count_list_0_iff)
  with n show "0 < n" by simp
qed

subsection \<open>Journeys by day of week\<close>

text \<open>
  The by-day projection always lists the seven weekdays in the fixed order; a weekday
  that occurs in the table carries its number of rows, a weekday that does not occur
  carries a missing value.
\<close>

lemma day_counts_shape:
  "day_counts df =
     map (\<lambda>d. (d, if Some d \<in> set (map day_of_week df)
                   then Some (length (filter (\<lambda>r. day_of_week r = Some d) df)) else None)) week"
  by (simp add: day_counts_def reindex_def value_counts_lookup count_dropna_map)

text \<open>
  C5. The claim asks for 0 at every weekday without a matching row. On the table that
  holds a single Monday journey the projection has the seven weekdays in order, Monday
  with 1, and a missing value, not 0, at the six other weekdays.
\<close>

theorem day_counts_missing_day:
  "day_counts [blank\<lparr>day_of_week := Some ''Monday''\<rparr>] =
     [(''Sunday'', None), (''Monday'', Some 1), (''Tuesday'', None), (''Wednesday'', None),
      (''Thursday'', None), (''Friday'', None), (''Saturday'', None)]"
  by code_simp

subsection \<open>The empty table\<close>

text \<open>
  C8. On the empty table the popular routes, the by-hour and by-month counts, the two
  reason distributions and the revenue pivot are empty; the by-day projection has its
  seven weekdays, each with a missing value where the claim asks for a zero.
\<close>

theorem projections_of_empty:
  "popular_routes [] = [] \<and> hour_counts [] = [] \<and> monthly_counts [] = [] \<and>
   delayed_reasons [] = [] \<and> cancel_reasons [] = [] \<and>
   revenue_pivot gsum [] = \<lparr>pivot_index = [], pivot_columns = [], pivot_values = []\<rparr> \<and>
   day_counts [] =
     [(''Sunday'', None), (''Monday'', None), (''Tuesday'', None), (''Wednesday'', None),
      (''Thursday'', None), (''Friday'', None), (''Saturday'', None)]"
  by (simp add: popular_routes_def hour_counts_def monthly_counts_def delayed_reasons_def
      cancel_reasons_def revenue_pivot_def day_counts_def value_counts_def groupby_size_def
      unique_def delayed_def cancelled_def reindex_def week_def)

subsection \<open>Journeys by hour\<close>

lemma groupby_size_keys: "map fst (groupby_size col) = sort (remdups (dropna col))"
  by (simp add: groupby_size_def Let_def comp_def)

lemma groupby_size_set:
  "set (groupby_size col) = (\<lambda>k. (k, count_list (dropna col) k)) ` {x. Some x \<in> set col}"
  by (simp add: groupby_size_def Let_def set_dropna)

text \<open>
  C6 (as amended). The by-hour projection lists each hour label that occurs in the
  table once, with its number of rows, in ascending order of the label strings
  (character by character, by character code), not of the hours they denote.
\<close>

theorem hour_counts_label_order:
  "sorted_wrt (<) (map fst (hour_counts df)) \<and>
   set (map fst (hour_counts df)) = {h. \<exists>r\<in>set df. hour_am_pm r = Some h} \<and>
   (\<forall>(h, n) \<in> set (hour_counts df). n = length (filter (\<lambda>r. hour_am_pm r = Some h) df))"
proof -
  have "sorted_wrt (<) (map fst (hour_counts df))"
    unfolding hour_counts_def groupby_size_keys by (simp add: strict_sorted_iff)
  moreover have "set (map fst (hour_counts df)) = {h. \<exists>r\<in>set df. hour_am_pm r = Some h}"
    unfolding hour_counts_def groupby_size_keys by (simp add: set_dropna) force
  moreover have "\<forall>(h, n) \<in> set (hour_counts df).
      n = length (filter (\<lambda>r. hour_am_pm r = Some h) df)"
    unfolding hour_counts_def groupby_size_set by (auto simp: count_dropna_map)
  ultimately show ?thesis by blast
qed

theorem hour_counts_label_order_witness:
  "hour_counts [blank\<lparr>hour_am_pm := Some ''9 AM''\<rparr>, blank\<lparr>hour_am_pm := Some ''3 PM''\<rparr>,
                blank\<lparr>hour_am_pm := Some ''9 AM''\<rparr>, blank\<lparr>hour_am_pm := Some ''12 AM''\<rparr>]
     = [(''12 AM'', 1), (''3 PM'', 1), (''9 AM'', 2)] \<and>
   sorted_wrt (<) [''12 AM'', ''3 PM'', ''9 AM'']"
  using hour_counts_label_order [of
    "[blank\<lparr>hour_am_pm := Some ''9 AM''\<rparr>, blank\<lparr>hour_am_pm := Some ''3 PM''\<rparr>,
      blank\<lparr>hour_am_pm := Some ''9 AM''\<rparr>, blank\<lparr>hour_am_pm := Some ''12 AM''\<rparr>]"]
  by (simp add: hour_counts_def groupby_size_def)

text \<open>
  C6 as stated fails: the label \<open>''10 AM''\<close> comes before \<open>''9 AM''\<close>.
\<close>

theorem hour_counts_alphabetical_counterexample:
  "hour_counts [blank\<lparr>hour_am_pm := Some ''9 AM''\<rparr>, blank\<lparr>hour_am_pm := Some ''10 AM''\<rparr>]
     = [(''10 AM'', 1), (''9 AM'', 1)]"
  by code_simp

subsection \<open>Reasons for delays and cancellations\<close>

lemma reasons_table:
  fixes p :: "journey \<Rightarrow> bool" and df :: "journey list"
  defines "out \<equiv> value_counts (map reason_for_delay (filter p df))"
  shows "distinct (map fst out)"
    and "fst ` set out = {x. \<exists>r\<in>set df. p r \<and> reason_for_delay r = Some x}"
    and "\<forall>(x, n) \<in> set out.
           n = length (filter (\<lambda>r. p r \<and> reason_for_delay r = Some x) df) \<and> 0 < n"
    and "sorted_wrt (\<ge>) (map snd out)"
    and "length out = card {x. \<exists>r\<in>set df. p r \<and> reason_for_delay r = Some x}"
proof -
  have keys: "{x. Some x \<in> set (map reason_for_delay (filter p df))}
      = {x. \<exists>r\<in>set df. p r \<and> reason_for_delay r = Some x}"
    by force
  show "distinct (map fst out)"
    unfolding out_def by (rule value_counts_distinct)
  show "fst ` set out = {x. \<exists>r\<in>set df. p r \<and> reason_for_delay r = Some x}"
    unfolding out_def value_counts_set keys by (simp add: image_image)
  show "\<forall>(x, n) \<in> set out.
      n = length (filter (\<lambda>r. p r \<and> reason_for_delay r = Some x) df) \<and> 0 < n"
  proof (clarify)
    fix x n assume mem: "(x, n) \<in> set out"
    then have "n = count_list (dropna (map reason_for_delay (filter p df))) x"
      unfolding out_def value_counts_set by auto
    then have "n = length (filter (\<lambda>r. p r \<and> reason_for_delay r = Some x) df)"
      by (simp add: count_dropna_map conj_commute)
    moreover have "0 < n"
      using mem unfolding out_def by (rule value_counts_positive)
    ultimately show "n = length (filter (\<lambda>r. p r \<and> reason_for_delay r = Some x) df) \<and> 0 < n"
      by simp
  qed
  show "sorted_wrt (\<ge>) (map snd out)"
    using value_counts_sorted [of "map reason_for_delay (filter p df)"]
    unfolding out_def by (simp add: sorted_wrt_map)
  show "length out = card {x. \<exists>r\<in>set df. p r \<and> reason_for_delay r = Some x}"
    unfolding out_def value_counts_length keys by simp
qed


text \<open>
  C9. The delay reasons are counted over the delayed rows only and the cancellation
  reasons over the cancelled rows only, both from the column of delay reasons. Each
  reason that occurs is listed once with its number of rows, a missing reason is never
  listed, the counts descend, and the list is as long as there are distinct reasons.
\<close>

theorem reason_distributions:
  "distinct (map fst (delayed_reasons df)) \<and>
   fst ` set (delayed_reasons df)
     = {x. \<exists>r\<in>set df. is_delayed r \<and> reason_for_delay r = Some x} \<and>
   (\<forall>(x, n) \<in> set (delayed_reasons df).
      n = length (filter (\<lambda>r. is_delayed r \<and> reason_for_delay r = Some x) df) \<and> 0 < n) \<and>
   sorted_wrt (\<ge>) (map snd (delayed_reasons df)) \<and>
   length (delayed_reasons df)
     = card {x. \<exists>r\<in>set df. is_delayed r \<and> reason_for_delay r = Some x} \<and>
   distinct (map fst (cancel_reasons df)) \<and>
   fst ` set (cancel_reasons df)
     = {x. \<exists>r\<in>set df. is_cancelled r \<and> reason_for_delay r = Some x} \<and>
   (\<forall>(x, n) \<in> set (cancel_reasons df).
      n = length (filter (\<lambda>r. is_cancelled r \<and> reason_for_delay r = Some x) df) \<and> 0 < n) \<and>
   sorted_wrt (\<ge>) (map snd (cancel_reasons df)) \<and>
   length (cancel_reasons df)
     = card {x. \<exists>r\<in>set df. is_cancelled r \<and> reason_for_delay r = Some x}"
proof -
  have d: "delayed_reasons df = value_counts (map reason_for_delay (filter is_delayed df))"
    by (simp add: delayed_reasons_def delayed_def)
  have c: "cancel_reasons df = value_counts (map reason_for_delay (filter is_cancelled df))"
    by (simp add: cancel_reasons_def cancelled_def)
  show ?thesis
    unfolding d c
    using reasons_table [of is_delayed df] reasons_table [of is_cancelled df]
    by blast
qed

theorem reason_distributions_witness:
  "delayed_reasons
     [blank\<lparr>is_delayed := True, reason_for_delay := Some ''Weather''\<rparr>,
      blank\<lparr>is_delayed := True, reason_for_delay := Some ''Signal Failure''\<rparr>,
      blank\<lparr>is_delayed := True\<rparr>,
      blank\<lparr>is_cancelled := True, reason_for_delay := Some ''Staffing''\<rparr>,
      blank\<lparr>is_delayed := True, reason_for_delay := Some ''Signal Failure''\<rparr>]
     = [(''Signal Failure'', 2), (''Weather'', 1)] \<and>
   cancel_reasons
     [blank\<lparr>is_delayed := True, reason_for_delay := Some ''Weather''\<rparr>,
      blank\<lparr>is_delayed := True, reason_for_delay := Some ''Signal Failure''\<rparr>,
      blank\<lparr>is_delayed := True\<rparr>,
      blank\<lparr>is_cancelled := True, reason_for_delay := Some ''Staffing''\<rparr>,
      blank\<lparr>is_delayed := True, reason_for_delay := Some ''Signal Failure''\<rparr>]
     = [(''Staffing'', 1)]"
  using reason_distributions [of
    "[blank\<lparr>is_delayed := True, reason_for_delay := Some ''Weather''\<rparr>,
      blank\<lparr>is_delayed := True, reason_for_delay := Some ''Signal Failure''\<rparr>,
      blank\<lparr>is_delayed := True\<rparr>,
      blank\<lparr>is_cancelled := True, reason_for_delay := Some ''Staffing''\<rparr>,
      blank\<lparr>is_delayed := True, reason_for_delay := Some ''Signal Failure''\<rparr>]"]
  by (simp add: delayed_reasons_def cancel_reasons_def delayed_def cancelled_def
      value_counts_def unique_def blank_def)

subsection \<open>Popular routes\<close>

lemma sorted_wrt_take_drop:
  assumes "sorted_wrt R xs" and "a \<in> set (take k xs)" and "b \<in> set (drop k xs)"
  shows "R a b"
proof -
  have "sorted_wrt R (take k xs @ drop k xs)"
    using assms(1) by simp
  then show ?thesis
    using assms(2,3) unfolding sorted_wrt_append by blast
qed

text \<open>
  C10. The popular routes are at most ten pairs of a route and its number of rows, with
  distinct routes and descending counts, and no route left out has more rows than a
  route listed. The result is a function of the table, so equal counts are always
  ordered the same way.
\<close>

theorem popular_routes_top10:
  "length (popular_routes df) = min 10 (card {x. \<exists>r\<in>set df. route r = Some x}) \<and>
   length (popular_routes df) \<le> 10 \<and>
   distinct (map fst (popular_routes df)) \<and>
   (\<forall>(x, n) \<in> set (popular_routes df).
      n = length (filter (\<lambda>r. route r = Some x) df) \<and> 0 < n) \<and>
   sorted_wrt (\<ge>) (map snd (popular_routes df)) \<and>
   (\<forall>r\<in>set df. \<forall>y. route r = Some y \<longrightarrow> y \<notin> fst ` set (popular_routes df) \<longrightarrow>
      (\<forall>(x, n) \<in> set (popular_routes df). length (filter (\<lambda>r. route r = Some y) df) \<le> n))"
proof -
  let ?vc = "value_counts (map route df)"
  have keys: "{x. Some x \<in> set (map route df)} = {x. \<exists>r\<in>set df. route r = Some x}"
    by force
  have len: "length (popular_routes df) = min 10 (card {x. \<exists>r\<in>set df. route r = Some x})"
    unfolding popular_routes_def length_take value_counts_length keys
    by (simp add: min.commute)
  have dist: "distinct (map fst (popular_routes df))"
    unfolding popular_routes_def take_map [symmetric]
    by (rule distinct_take) (rule value_counts_distinct)
  have cnt: "n = length (filter (\<lambda>r. route r = Some x) df) \<and> 0 < n"
    if "(x, n) \<in> set ?vc" for x n
  proof -
    have "n = count_list (dropna (map route df)) x"
      using that unfolding value_counts_set by auto
    then have "n = length (filter (\<lambda>r. route r = Some x) df)"
      by (simp add: count_dropna_map)
    with value_counts_positive [OF that] show ?thesis by simp
  qed
  have top: "\<forall>(x, n) \<in> set (popular_routes df).
      n = length (filter (\<lambda>r. route r = Some x) df) \<and> 0 < n"
    unfolding popular_routes_def using cnt by (auto dest: in_set_takeD)
  have sorted: "sorted_wrt (\<ge>) (map snd (popular_routes df))"
    unfolding popular_routes_def sorted_wrt_map
    by (rule sorted_wrt_take) (use value_counts_sorted [of "map route df"] in simp)
  have rest: "length (filter (\<lambda>r. route r = Some y) df) \<le> n"
    if r: "r \<in> set df" "route r = Some y" and out: "y \<notin> fst ` set (popular_routes df)"
      and xn: "(x, n) \<in> set (popular_routes df)" for r y x n
  proof -
    let ?m = "count_list (dropna (map route df)) y"
    have "Some y \<in> set (map route df)"
      using r by force
    then have "(y, ?m) \<in> set ?vc"
      by (simp add: value_counts_set)
    then have "(y, ?m) \<in> set (take 10 ?vc) \<or> (y, ?m) \<in> set (drop 10 ?vc)"
      using set_append [of "take 10 ?vc" "drop 10 ?vc"] by simp
    moreover have "(y, ?m) \<notin> set (take 10 ?vc)"
      using out unfolding popular_routes_def by force
    ultimately have "(y, ?m) \<in> set (drop 10 ?vc)"
      by blast
    with sorted_wrt_take_drop [OF value_counts_sorted, of "(x, n)" 10 "map route df" "(y, ?m)"] xn
    have "?m \<le> n"
      by (simp add: popular_routes_def)
    then show ?thesis by (simp add: count_dropna_map)
  qed
  have rest': "\<forall>r\<in>set df. \<forall>y. route r = Some y \<longrightarrow> y \<notin> fst ` set (popular_routes df) \<longrightarrow>
      (\<forall>(x, n) \<in> set (popular_routes df). length (filter (\<lambda>r. route r = Some y) df) \<le> n)"
    using rest by blast
  have "length (popular_routes df) \<le> 10"
    by (simp add: popular_routes_def)
  with len dist top sorted rest' show ?thesis
    by (intro conjI)
qed

theorem popular_routes_top10_witness:
  "length (popular_routes thirteen_journeys) = 10 \<and>
   hd (popular_routes thirteen_journeys) = (''Leeds'', 2) \<and>
   map snd (popular_routes thirteen_journeys) = [2, 1, 1, 1, 1, 1, 1, 1, 1, 1] \<and>
   length (remdups (map route thirteen_journeys)) = 12"
  using popular_routes_top10 [of thirteen_journeys]
  by (simp add: popular_routes_def thirteen_journeys_def value_counts_def unique_def
      blank_def)

subsection \<open>Revenue by ticket type and class\<close>



















end
